theory Spec2Isabelle
  imports Complex_Main
begin

section \<open>Values, exceptions and logging shared by the pipeline stages\<close>

text \<open>
  The pipeline moves untyped JSON-like Python values around (\<open>Dict[str, Any]\<close>).
  They are modelled by one datatype; \<open>PNone\<close> is Python's \<open>None\<close>. A dictionary is an
  association list read with \<open>map_of\<close>. A Python float is modelled by its rational
  value, so the floats are the finite ones: the values \<open>nan\<close> and \<open>inf\<close> are not part of
  the model.
\<close>

datatype pyval =
    PNone
  | PBool bool
  | PInt int
  | PFloat rat
  | PStr string
  | PList "pyval list"
  | PDict "(string \<times> pyval) list"

text \<open>The exceptions that can leave a function of the package.\<close>

datatype exn =
    AttributeError | KeyError | TypeError | ValueError | OverflowError | OSError
  | SqliteError | OtherError string

datatype level = INFO | WARNING | ERROR

type_synonym log_entry = "level \<times> string"

section \<open>Extract: \<open>weather_etl/extract.py\<close>\<close>

text \<open>
  A city is a dictionary that must contain \<open>name\<close>, \<open>latitude\<close> and \<open>longitude\<close>
  (docstring of \<open>fetch_weather\<close>); it is modelled by a record with these three keys.
\<close>

record city_target =
  name :: string
  latitude :: pyval
  longitude :: pyval

text \<open>
  One HTTP request is the triple of the arguments given to \<open>requests.get\<close>:
  the URL, the query parameters and the timeout.
\<close>

type_synonym request = "string \<times> (string \<times> pyval) list \<times> int"

text \<open>The observable effects of the Fetcher, in the order they happen.\<close>

datatype io_event = Get request | Sleep int

text \<open>
  What the body of the \<open>try\<close> block of one attempt does: it returns the decoded JSON
  payload, or it raises. The raising outcomes are classified by the \<open>except\<close> clause
  that catches them, in the order of the clauses; \<open>RaisedOther\<close> is an exception that
  is not a \<open>requests.exceptions.RequestException\<close> and that no clause catches.
\<close>

datatype attempt_outcome =
    Returned pyval
  | RaisedTimeout
  | RaisedHTTPError
  | RaisedConnectionError
  | RaisedRequestException
  | RaisedOther exn

text \<open>
  The network state: how many requests have been sent so far, the trace of requests and
  sleeps, and the log. The remote server is a function from the number of requests
  sent before and the request to the outcome of the attempt; it is a parameter of the
  model.
\<close>

record net =
  sent :: nat
  trace :: "io_event list"
  logs :: "log_entry list"

type_synonym server = "nat \<Rightarrow> request \<Rightarrow> attempt_outcome"

definition log_msg :: "level \<Rightarrow> string \<Rightarrow> net \<Rightarrow> net" where
  "log_msg l m w = w\<lparr>logs := logs w @ [(l, m)]\<rparr>"

definition http_get :: "server \<Rightarrow> request \<Rightarrow> net \<Rightarrow> attempt_outcome \<times> net" where
  "http_get srv req w =
     (srv (sent w) req, w\<lparr>sent := Suc (sent w), trace := trace w @ [Get req]\<rparr>)"

text \<open>
  \<open>time.sleep(secs)\<close> with an integer number of seconds. It raises \<open>ValueError\<close> on a
  negative duration and \<open>OverflowError\<close> on a duration of \<open>2 ^ 63\<close> nanoseconds or more
  (the duration is converted to a signed 64-bit count of nanoseconds). Below that bound
  the operating system decides: it may still refuse a duration close to the bound (with
  \<open>OSError\<close>, when the deadline computed from the clock is out of range). That decision
  is a parameter of the model: \<open>plat secs\<close> is \<open>None\<close> when the system sleeps for
  \<open>secs\<close> seconds, and the exception raised otherwise.
\<close>

type_synonym sleep_platform = "int \<Rightarrow> exn option"

definition time_sleep :: "sleep_platform \<Rightarrow> int \<Rightarrow> net \<Rightarrow> exn + net" where
  "time_sleep plat secs w =
     (if secs < 0 then Inl ValueError
      else if 2 ^ 63 \<le> secs * 10 ^ 9 then Inl OverflowError
      else (case plat secs of
              Some e \<Rightarrow> Inl e
            | None \<Rightarrow> Inr (w\<lparr>trace := trace w @ [Sleep secs]\<rparr>)))"

text \<open>The durations that \<open>time.sleep\<close> accepts, in terms of its argument and of the platform.\<close>

definition sleep_accepted :: "sleep_platform \<Rightarrow> int \<Rightarrow> bool" where
  "sleep_accepted plat secs = (0 \<le> secs \<and> secs * 10 ^ 9 < 2 ^ 63 \<and> plat secs = None)"

definition retryable :: "attempt_outcome \<Rightarrow> bool" where
  "retryable out = (out = RaisedTimeout \<or> out = RaisedHTTPError \<or> out = RaisedConnectionError)"

text \<open>
  The \<open>for attempt in range(1, max_retries + 1)\<close> loop of \<open>fetch_weather\<close>, as a
  recursion over the list of the attempt numbers still to run. The result is
  \<open>Some r\<close> when the loop is left by \<open>return\<close> (\<open>r = Inr v\<close>, with the Python value
  \<open>v\<close> returned: \<open>return data\<close> returns the decoded body as it is, so a body that is
  JSON \<open>null\<close> is returned as \<open>None\<close>, like a failure) or by an exception
  (\<open>r = Inl e\<close>), and \<open>None\<close> when the loop runs to its end.
\<close>

fun attempts ::
  "sleep_platform \<Rightarrow> server \<Rightarrow> string \<Rightarrow> request \<Rightarrow> int \<Rightarrow> int \<Rightarrow> int list \<Rightarrow> net
     \<Rightarrow> (exn + pyval) option \<times> net" where
  "attempts plat srv nm req max_retries backoff_factor [] w = (None, w)"
| "attempts plat srv nm req max_retries backoff_factor (attempt # rest) w =
     (let w1 = log_msg INFO ''Requesting weather'' w;
          (out, w2) = http_get srv req w1
      in case out of
           Returned data \<Rightarrow> (Some (Inr data), log_msg INFO ''Successfully fetched weather'' w2)
         | RaisedRequestException \<Rightarrow> (Some (Inr PNone), log_msg ERROR ''Unrecoverable request error'' w2)
         | RaisedOther e \<Rightarrow> (Some (Inl e), w2)
         | _ \<Rightarrow>
             (let w3 = log_msg WARNING
                         (if out = RaisedTimeout then ''Timeout fetching''
                          else if out = RaisedHTTPError then ''HTTP error''
                          else ''Connection error'') w2
              in if attempt < max_retries then
                   (let wait = backoff_factor ^ nat attempt;
                        w4 = log_msg INFO ''Retrying'' w3
                    in case time_sleep plat wait w4 of
                         Inl e \<Rightarrow> (Some (Inl e), w4)
                       | Inr w5 \<Rightarrow> attempts plat srv nm req max_retries backoff_factor rest w5)
                 else attempts plat srv nm req max_retries backoff_factor rest w3))"

definition str_lower_bool :: "bool \<Rightarrow> string" where
  "str_lower_bool b = (if b then ''true'' else ''false'')"

definition fetch_weather ::
  "sleep_platform \<Rightarrow> server \<Rightarrow> city_target \<Rightarrow> string \<Rightarrow> int \<Rightarrow> int \<Rightarrow> int \<Rightarrow> bool \<Rightarrow> net
     \<Rightarrow> (exn + pyval) \<times> net" where
  "fetch_weather plat srv c base_url timeout max_retries backoff_factor current_weather w =
     (let params = [(''latitude'', latitude c), (''longitude'', longitude c),
                    (''current_weather'', PStr (str_lower_bool current_weather))];
          req = (base_url, params, timeout)
      in case attempts plat srv (name c) req max_retries backoff_factor [1..max_retries] w of
           (Some r, w') \<Rightarrow> (r, w')
         | (None, w') \<Rightarrow> (Inr PNone, log_msg ERROR ''All attempts failed'' w'))"

text \<open>The request that \<open>fetch_weather\<close> sends at every attempt.\<close>

definition request_of :: "city_target \<Rightarrow> string \<Rightarrow> int \<Rightarrow> bool \<Rightarrow> request" where
  "request_of c base_url timeout current_weather =
     (base_url,
      [(''latitude'', latitude c), (''longitude'', longitude c),
       (''current_weather'', PStr (str_lower_bool current_weather))],
      timeout)"

text \<open>
  The API settings are a dictionary read with \<open>api_config["base_url"]\<close> and
  \<open>api_config.get(key, default)\<close>: \<open>base_url\<close> is required, the other keys are
  optional.
\<close>

record api_config =
  api_base_url :: string
  api_timeout_seconds :: "int option"
  api_max_retries :: "int option"
  api_backoff_factor :: "int option"
  api_current_weather :: "bool option"

definition dict_get :: "'a option \<Rightarrow> 'a \<Rightarrow> 'a" where
  "dict_get v d = (case v of None \<Rightarrow> d | Some x \<Rightarrow> x)"

text \<open>
  \<open>extract_all\<close> looks \<open>fetch_weather\<close> up in the module at each call (the tests
  replace it by a mock), so the loop is written over any Fetcher of the signature of
  \<open>fetch_weather\<close>, and \<open>extract_all\<close> is the loop over \<open>fetch_weather\<close> itself.
\<close>

type_synonym fetcher =
  "city_target \<Rightarrow> string \<Rightarrow> int \<Rightarrow> int \<Rightarrow> int \<Rightarrow> bool \<Rightarrow> net \<Rightarrow> (exn + pyval) \<times> net"

definition call_fetcher :: "fetcher \<Rightarrow> api_config \<Rightarrow> city_target \<Rightarrow> net \<Rightarrow> (exn + pyval) \<times> net" where
  "call_fetcher f cfg c w =
     f c (api_base_url cfg)
       (dict_get (api_timeout_seconds cfg) 10)
       (dict_get (api_max_retries cfg) 3)
       (dict_get (api_backoff_factor cfg) 2)
       (dict_get (api_current_weather cfg) True) w"

definition extracted_record :: "city_target \<Rightarrow> pyval \<Rightarrow> pyval" where
  "extracted_record c raw = PDict [(''city'', PStr (name c)), (''raw'', raw)]"

fun extract_loop ::
  "fetcher \<Rightarrow> api_config \<Rightarrow> city_target list \<Rightarrow> pyval list \<Rightarrow> net \<Rightarrow> (exn + pyval list) \<times> net" where
  "extract_loop f cfg [] results w = (Inr results, w)"
| "extract_loop f cfg (c # cs) results w =
     (case call_fetcher f cfg c w of
        (Inl e, w') \<Rightarrow> (Inl e, w')
      | (Inr raw, w') \<Rightarrow>
          if raw \<noteq> PNone then extract_loop f cfg cs (results @ [extracted_record c raw]) w'
          else extract_loop f cfg cs results w')"

definition extract_all_with ::
  "fetcher \<Rightarrow> city_target list \<Rightarrow> api_config \<Rightarrow> net \<Rightarrow> (exn + pyval list) \<times> net" where
  "extract_all_with f cities cfg w =
     (case extract_loop f cfg cities [] w of
        (Inl e, w') \<Rightarrow> (Inl e, w')
      | (Inr results, w') \<Rightarrow> (Inr results, log_msg INFO ''Extraction complete'' w'))"

definition extract_all ::
  "sleep_platform \<Rightarrow> server \<Rightarrow> city_target list \<Rightarrow> api_config \<Rightarrow> net \<Rightarrow> (exn + pyval list) \<times> net" where
  "extract_all plat srv cities cfg w = extract_all_with (fetch_weather plat srv) cities cfg w"

text \<open>
  The values that the Fetcher returns when it is called once per city, in order, each
  call starting in the state the previous one left. It is used to state what
  \<open>extract_all\<close> collects.
\<close>

fun fetch_each :: "fetcher \<Rightarrow> api_config \<Rightarrow> city_target list \<Rightarrow> net \<Rightarrow> (exn + pyval) list" where
  "fetch_each f cfg [] w = []"
| "fetch_each f cfg (c # cs) w =
     (case call_fetcher f cfg c w of (r, w') \<Rightarrow> r # fetch_each f cfg cs w')"

text \<open>The record that a city contributes: one when its fetch returned a payload, none otherwise.\<close>

fun success_record :: "city_target \<times> (exn + pyval) \<Rightarrow> pyval option" where
  "success_record (c, Inr raw) = (if raw \<noteq> PNone then Some (extracted_record c raw) else None)"
| "success_record (c, Inl e) = None"

section \<open>Transform: \<open>weather_etl/transform.py\<close>\<close>

definition EXPECTED_COLUMNS :: "string list" where
  "EXPECTED_COLUMNS =
     [''city'', ''timestamp'', ''temperature_c'', ''windspeed_kmh'', ''winddirection_deg'',
      ''weathercode'', ''is_day'', ''retrieval_timestamp'']"

text \<open>
  A cell of a DataFrame: a Python object (dtype \<open>object\<close>), a number or NaN (the
  numeric dtypes that \<open>pd.to_numeric\<close> produces), or a nullable integer (dtype
  \<open>Int64\<close>, where \<open>None\<close> is \<open><NA>\<close>).
\<close>

datatype cell = Obj pyval | Float64 "rat option" | Int64 "int option"

text \<open>
  A row has one cell for each key of the dictionary that \<open>_parse_single\<close> builds; a
  DataFrame has its column labels and its rows.
\<close>

record row =
  city :: cell
  timestamp :: cell
  temperature_c :: cell
  windspeed_kmh :: cell
  winddirection_deg :: cell
  weathercode :: cell
  is_day :: cell
  retrieval_timestamp :: cell

record dataframe =
  columns :: "string list"
  rows :: "row list"

text \<open>
  The state of the Normalizer: the number of times the wall clock has been read, and
  the log. The clock is a parameter: \<open>clock i\<close> is the text of
  \<open>datetime.now(timezone.utc).isoformat()\<close> at the reading number \<open>i\<close>.
\<close>

record tstate =
  clock_reads :: nat
  tlogs :: "log_entry list"

type_synonym clock = "nat \<Rightarrow> string"

definition tlog :: "level \<Rightarrow> string \<Rightarrow> tstate \<Rightarrow> tstate" where
  "tlog l m w = w\<lparr>tlogs := tlogs w @ [(l, m)]\<rparr>"

definition utc_now_iso :: "clock \<Rightarrow> tstate \<Rightarrow> string \<times> tstate" where
  "utc_now_iso clk w = (clk (clock_reads w), w\<lparr>clock_reads := Suc (clock_reads w)\<rparr>)"

text \<open>
  \<open>obj.get(key, default)\<close>: a dictionary lookup when \<open>obj\<close> is a dictionary; any
  other JSON value (\<open>None\<close>, a number, a string, a list) has no attribute \<open>get\<close>.
\<close>

fun py_get :: "pyval \<Rightarrow> string \<Rightarrow> pyval \<Rightarrow> exn + pyval" where
  "py_get (PDict kvs) k d = Inr (case map_of kvs k of None \<Rightarrow> d | Some v \<Rightarrow> v)"
| "py_get _ k d = Inl AttributeError"

text \<open>
  The dictionary display in the \<open>try\<close> block of \<open>_parse_single\<close>: its values are
  evaluated from top to bottom, so the clock is read only after the six lookups.
\<close>

definition build_parsed :: "clock \<Rightarrow> pyval \<Rightarrow> pyval \<Rightarrow> tstate \<Rightarrow> (exn + row) \<times> tstate" where
  "build_parsed clk city_name current w =
     (case py_get current ''time'' PNone of Inl e \<Rightarrow> (Inl e, w) | Inr v_time \<Rightarrow>
      case py_get current ''temperature'' PNone of Inl e \<Rightarrow> (Inl e, w) | Inr v_temperature \<Rightarrow>
      case py_get current ''windspeed'' PNone of Inl e \<Rightarrow> (Inl e, w) | Inr v_windspeed \<Rightarrow>
      case py_get current ''winddirection'' PNone of Inl e \<Rightarrow> (Inl e, w) | Inr v_winddirection \<Rightarrow>
      case py_get current ''weathercode'' PNone of Inl e \<Rightarrow> (Inl e, w) | Inr v_weathercode \<Rightarrow>
      case py_get current ''is_day'' PNone of Inl e \<Rightarrow> (Inl e, w) | Inr v_is_day \<Rightarrow>
      case utc_now_iso clk w of (now, w') \<Rightarrow>
        (Inr \<lparr>city = Obj city_name,
              timestamp = Obj v_time,
              temperature_c = Obj v_temperature,
              windspeed_kmh = Obj v_windspeed,
              winddirection_deg = Obj v_winddirection,
              weathercode = Obj v_weathercode,
              is_day = Obj v_is_day,
              retrieval_timestamp = Obj (PStr now)\<rparr>, w'))"

text \<open>
  \<open>_parse_single\<close>. The three lookups before the \<open>try\<close> block are not guarded; the
  \<open>try\<close> block catches \<open>KeyError\<close> and \<open>TypeError\<close> only (no \<open>KeyError\<close> can arise,
  since every lookup is a \<open>get\<close>).
\<close>

definition parse_single :: "clock \<Rightarrow> pyval \<Rightarrow> tstate \<Rightarrow> (exn + row option) \<times> tstate" where
  "parse_single clk rec w =
     (case py_get rec ''city'' (PStr ''unknown'') of Inl e \<Rightarrow> (Inl e, w) | Inr city_name \<Rightarrow>
      case py_get rec ''raw'' (PDict []) of Inl e \<Rightarrow> (Inl e, w) | Inr raw \<Rightarrow>
      case py_get raw ''current_weather'' PNone of Inl e \<Rightarrow> (Inl e, w) | Inr current \<Rightarrow>
        if current = PNone then (Inr None, tlog WARNING ''No current_weather block'' w)
        else (case build_parsed clk city_name current w of
                (Inr parsed, w') \<Rightarrow> (Inr (Some parsed), w')
              | (Inl e, w') \<Rightarrow>
                  if e = KeyError \<or> e = TypeError then (Inr None, tlog ERROR ''Error parsing data'' w')
                  else (Inl e, w')))"

fun parse_loop :: "clock \<Rightarrow> pyval list \<Rightarrow> row list \<Rightarrow> tstate \<Rightarrow> (exn + row list) \<times> tstate" where
  "parse_loop clk [] acc w = (Inr acc, w)"
| "parse_loop clk (rec # rest) acc w =
     (case parse_single clk rec w of
        (Inl e, w') \<Rightarrow> (Inl e, w')
      | (Inr None, w') \<Rightarrow> parse_loop clk rest acc w'
      | (Inr (Some parsed), w') \<Rightarrow> parse_loop clk rest (acc @ [parsed]) w')"

text \<open>
  \<open>pd.to_numeric(series, errors="coerce")\<close>, cell by cell: numbers and booleans keep
  their value, \<open>None\<close> and everything that is not a number become NaN, and a
  non-empty string is parsed by the library's number parser, a parameter of the model
  (\<open>None\<close> when the text is not a number). The result is the value of the cell, whatever
  numeric dtype the series gets. The model keeps the exact value of an integer; the
  library stores an integer beyond \<open>2 ^ 53\<close> rounded to a double when the series holds a
  float or NaN as well.
\<close>

fun to_numeric_cell :: "(string \<Rightarrow> rat option) \<Rightarrow> cell \<Rightarrow> rat option" where
  "to_numeric_cell parse_number (Obj PNone) = None"
| "to_numeric_cell parse_number (Obj (PBool b)) = Some (if b then 1 else 0)"
| "to_numeric_cell parse_number (Obj (PInt i)) = Some (of_int i)"
| "to_numeric_cell parse_number (Obj (PFloat r)) = Some r"
| "to_numeric_cell parse_number (Obj (PStr s)) = (if s = [] then None else parse_number s)"
| "to_numeric_cell parse_number (Obj (PList xs)) = None"
| "to_numeric_cell parse_number (Obj (PDict kvs)) = None"
| "to_numeric_cell parse_number (Float64 x) = x"
| "to_numeric_cell parse_number (Int64 x) = map_option of_int x"

definition to_numeric_coerce :: "(string \<Rightarrow> rat option) \<Rightarrow> cell list \<Rightarrow> rat option list" where
  "to_numeric_coerce parse_number series = map (to_numeric_cell parse_number) series"

text \<open>
  \<open>series.astype("Int64")\<close> on a numeric series: NaN becomes \<open><NA>\<close>, an integral
  value within the signed 64-bit range becomes that integer, and the whole conversion
  raises \<open>TypeError\<close> (cannot safely cast non-equivalent float64 to int64) when some
  value is not integral or does not fit 64 bits.
\<close>

definition integral :: "rat \<Rightarrow> bool" where
  "integral r = (of_int \<lfloor>r\<rfloor> = r)"

definition int64_value :: "rat \<Rightarrow> bool" where
  "int64_value r = (integral r \<and> - (2 ^ 63) \<le> r \<and> r < 2 ^ 63)"

definition astype_Int64 :: "rat option list \<Rightarrow> exn + int option list" where
  "astype_Int64 series =
     (if list_all (\<lambda>x. case x of None \<Rightarrow> True | Some r \<Rightarrow> int64_value r) series
      then Inr (map (map_option floor) series)
      else Inl TypeError)"

text \<open>\<open>df[col] = series\<close>, with the record update of the column as a parameter.\<close>

definition set_column :: "(row \<Rightarrow> cell \<Rightarrow> row) \<Rightarrow> cell list \<Rightarrow> dataframe \<Rightarrow> dataframe" where
  "set_column upd series df = df\<lparr>rows := map (\<lambda>(r, v). upd r v) (zip (rows df) series)\<rparr>"

definition coerce_types :: "(string \<Rightarrow> rat option) \<Rightarrow> dataframe \<Rightarrow> exn + dataframe" where
  "coerce_types parse_number df =
     (let df1 = set_column (\<lambda>r v. r\<lparr>temperature_c := v\<rparr>)
                  (map Float64 (to_numeric_coerce parse_number (map temperature_c (rows df)))) df;
          df2 = set_column (\<lambda>r v. r\<lparr>windspeed_kmh := v\<rparr>)
                  (map Float64 (to_numeric_coerce parse_number (map windspeed_kmh (rows df1)))) df1;
          df3 = set_column (\<lambda>r v. r\<lparr>winddirection_deg := v\<rparr>)
                  (map Float64 (to_numeric_coerce parse_number (map winddirection_deg (rows df2)))) df2
      in case astype_Int64 (to_numeric_coerce parse_number (map weathercode (rows df3))) of
           Inl e \<Rightarrow> Inl e
         | Inr s4 \<Rightarrow>
             (let df4 = set_column (\<lambda>r v. r\<lparr>weathercode := v\<rparr>) (map Int64 s4) df3
              in case astype_Int64 (to_numeric_coerce parse_number (map is_day (rows df4))) of
                   Inl e \<Rightarrow> Inl e
                 | Inr s5 \<Rightarrow> Inr (set_column (\<lambda>r v. r\<lparr>is_day := v\<rparr>) (map Int64 s5) df4)))"

text \<open>What the five column assignments together do to one row, when none of them raises.\<close>

definition coerced_row :: "(string \<Rightarrow> rat option) \<Rightarrow> row \<Rightarrow> row" where
  "coerced_row parse_number r =
     r\<lparr>temperature_c := Float64 (to_numeric_cell parse_number (temperature_c r)),
       windspeed_kmh := Float64 (to_numeric_cell parse_number (windspeed_kmh r)),
       winddirection_deg := Float64 (to_numeric_cell parse_number (winddirection_deg r)),
       weathercode := Int64 (map_option floor (to_numeric_cell parse_number (weathercode r))),
       is_day := Int64 (map_option floor (to_numeric_cell parse_number (is_day r)))\<rparr>"






definition transform ::
  "clock \<Rightarrow> (string \<Rightarrow> rat option) \<Rightarrow> pyval list \<Rightarrow> tstate \<Rightarrow> (exn + dataframe) \<times> tstate" where
  "transform clk parse_number raw_records w =
     (case parse_loop clk raw_records [] w of
        (Inl e, w') \<Rightarrow> (Inl e, w')
      | (Inr rs, w') \<Rightarrow>
          if rs = [] then
            (Inr \<lparr>columns = EXPECTED_COLUMNS, rows = []\<rparr>,
             tlog WARNING ''Transform produced an empty DataFrame'' w')
          else (case coerce_types parse_number \<lparr>columns = EXPECTED_COLUMNS, rows = rs\<rparr> of
                  Inl e \<Rightarrow> (Inl e, w')
                | Inr df \<Rightarrow> (Inr df, tlog INFO ''Transform complete'' w')))"

section \<open>Load: \<open>weather_etl/load.py\<close>\<close>

text \<open>
  The persistent state that the Load stage touches: the directories created, the files
  written (path and content), the tables of the SQLite databases (database path and the
  rows of \<open>weather_current\<close>, present once the table exists), and the log.
\<close>

record store =
  dirs :: "string list"
  files :: "(string \<times> string) list"
  tables :: "(string \<times> row list) list"
  llogs :: "log_entry list"

definition llog :: "level \<Rightarrow> string \<Rightarrow> store \<Rightarrow> store" where
  "llog l m s = s\<lparr>llogs := llogs s @ [(l, m)]\<rparr>"

text \<open>\<open>df.empty\<close>: some axis of the frame has length 0.\<close>

definition df_empty :: "dataframe \<Rightarrow> bool" where
  "df_empty df = (rows df = [] \<or> columns df = [])"

text \<open>
  \<open>load_to_csv\<close>. The CSV text of a frame (\<open>df.to_csv\<close>) and the time stamp of the
  file name (\<open>strftime\<close> of the current time) are parameters.
\<close>

definition load_to_csv ::
  "(dataframe \<Rightarrow> string) \<Rightarrow> string \<Rightarrow> dataframe \<Rightarrow> string \<Rightarrow> store \<Rightarrow> string option \<times> store" where
  "load_to_csv to_csv ts df data_dir s =
     (if df_empty df then (None, llog WARNING ''Empty DataFrame - CSV not written'' s)
      else
        (let s1 = s\<lparr>dirs := dirs s @ [data_dir]\<rparr>;
             filepath = data_dir @ ''/'' @ ''weather_data_'' @ ts @ ''.csv'';
             s2 = s1\<lparr>files := files s1 @ [(filepath, to_csv df)]\<rparr>
         in (Some filepath, llog INFO ''CSV saved'' s2)))"

text \<open>
  \<open>load_to_sqlite\<close>. The directory of the database file and what \<open>df.to_sql\<close> does to
  the rows of the table (append them, or fail with a \<open>sqlite3.Error\<close>) are parameters.
  \<open>CREATE TABLE IF NOT EXISTS\<close> leaves the rows of an existing table as they are.
\<close>

definition load_to_sqlite ::
  "(string \<Rightarrow> string) \<Rightarrow> (row list \<Rightarrow> dataframe \<Rightarrow> exn + row list) \<Rightarrow> dataframe \<Rightarrow> string \<Rightarrow> store
     \<Rightarrow> (exn + int) \<times> store" where
  "load_to_sqlite parent to_sql df db_path s =
     (if df_empty df then (Inr 0, llog WARNING ''Empty DataFrame - nothing to insert into SQLite'' s)
      else
        (let s1 = s\<lparr>dirs := dirs s @ [parent db_path]\<rparr>;
             existing = (case map_of (tables s1) db_path of None \<Rightarrow> [] | Some t \<Rightarrow> t);
             s2 = s1\<lparr>tables := (db_path, existing) # tables s1\<rparr>;
             rows_before = int (length existing)
         in case to_sql existing df of
              Inl e \<Rightarrow> (Inl e, llog ERROR ''SQLite error'' s2)
            | Inr after \<Rightarrow>
                (let s3 = s2\<lparr>tables := (db_path, after) # tables s2\<rparr>;
                     rows_after = int (length after);
                     inserted = rows_after - rows_before
                 in (Inr inserted, llog INFO ''SQLite: inserted rows into weather_current'' s3))))"

section \<open>Example inputs: the fixtures of the test suite and a few more\<close>

definition PARIS :: city_target where
  "PARIS = \<lparr>name = ''Paris'', latitude = PFloat (488566 / 10000), longitude = PFloat (23522 / 10000)\<rparr>"

definition BAD :: city_target where
  "BAD = \<lparr>name = ''Bad'', latitude = PInt 0, longitude = PInt 0\<rparr>"

definition API_CONFIG :: api_config where
  "API_CONFIG = \<lparr>api_base_url = ''https://api.open-meteo.com/v1/forecast'',
                  api_timeout_seconds = Some 5, api_max_retries = Some 2,
                  api_backoff_factor = Some 1, api_current_weather = Some True\<rparr>"

definition CURRENT :: "(string \<times> pyval) list" where
  "CURRENT = [(''time'', PStr ''2026-02-18T22:00''), (''temperature'', PFloat (72 / 10)),
              (''windspeed'', PFloat (125 / 10)), (''winddirection'', PInt 210),
              (''weathercode'', PInt 3), (''is_day'', PInt 0)]"

definition SAMPLE_RESPONSE :: pyval where
  "SAMPLE_RESPONSE = PDict [(''latitude'', PFloat (4886 / 100)), (''longitude'', PFloat (235 / 100)),
                            (''current_weather'', PDict CURRENT)]"

definition VALID_RECORD :: pyval where
  "VALID_RECORD = PDict [(''city'', PStr ''Paris''), (''raw'', PDict [(''current_weather'', PDict CURRENT)])]"

definition RECORD_MISSING_CW :: pyval where
  "RECORD_MISSING_CW = PDict [(''city'', PStr ''Broken''), (''raw'', PDict [])]"

text \<open>A platform that sleeps whenever \<open>time.sleep\<close> accepts the duration.\<close>

definition sleeps :: sleep_platform where
  "sleeps secs = None"

text \<open>A server that answers for Paris and times out for every other city.\<close>

definition paris_only :: server where
  "paris_only n req = (if map_of (fst (snd req)) ''latitude'' = Some (latitude PARIS)
                       then Returned SAMPLE_RESPONSE else RaisedTimeout)"

text \<open>
  A clock that ticks once, a number parser that recognises nothing, a record whose
  weather block has a temperature only, and stand-ins for the CSV writer, the parent
  directory and the table append.
\<close>

definition tick_clock :: clock where
  "tick_clock i = (if i = 0 then ''2026-02-18T22:05:00+00:00'' else ''2026-02-18T22:05:01+00:00'')"

definition no_numbers :: "string \<Rightarrow> rat option" where
  "no_numbers s = None"

definition PARTIAL_RECORD :: pyval where
  "PARTIAL_RECORD = PDict [(''city'', PStr ''Paris''),
     (''raw'', PDict [(''current_weather'', PDict [(''temperature'', PFloat (72 / 10))])])]"

definition csv_stub :: "dataframe \<Rightarrow> string" where
  "csv_stub df = concat (map (\<lambda>c. c @ '','') (columns df))"

definition parent_stub :: "string \<Rightarrow> string" where
  "parent_stub p = ''data''"

definition sql_append :: "row list \<Rightarrow> dataframe \<Rightarrow> exn + row list" where
  "sql_append existing df = Inr (existing @ rows df)"

text \<open>
  A server that always times out, one that times out once and then fails for good, a
  configuration with a back-off
  base of ten thousand million, and a record whose weather block has a fractional
  weather code only.
\<close>

definition always_times_out :: server where
  "always_times_out n req = RaisedTimeout"

definition timeout_then_fatal :: server where
  "timeout_then_fatal n req = (if n = 0 then RaisedTimeout else RaisedRequestException)"

definition HUGE_BACKOFF :: api_config where
  "HUGE_BACKOFF = \<lparr>api_base_url = ''https://api.open-meteo.com/v1/forecast'',
                    api_timeout_seconds = Some 5, api_max_retries = Some 2,
                    api_backoff_factor = Some 10000000000, api_current_weather = Some True\<rparr>"


definition net0 :: net where
  "net0 = \<lparr>sent = 0, trace = [], logs = []\<rparr>"

definition tstate0 :: tstate where
  "tstate0 = \<lparr>clock_reads = 0, tlogs = []\<rparr>"

definition store0 :: store where
  "store0 = \<lparr>dirs = [], files = [], tables = [], llogs = []\<rparr>"

section \<open>Properties of the Fetcher\<close>

lemma fetch_weather_unfold:
  "fetch_weather plat srv c base_url timeout max_retries backoff_factor current_weather w =
     (case attempts plat srv (name c) (request_of c base_url timeout current_weather)
             max_retries backoff_factor [1..max_retries] w of
        (Some r, w') \<Rightarrow> (r, w')
      | (None, w') \<Rightarrow> (Inr PNone, log_msg ERROR ''All attempts failed'' w'))"
  by (simp add: fetch_weather_def request_of_def)

lemma time_sleep_accepted:
  "sleep_accepted plat secs \<Longrightarrow> time_sleep plat secs w = Inr (w\<lparr>trace := trace w @ [Sleep secs]\<rparr>)"
  by (simp add: sleep_accepted_def time_sleep_def)

lemma attempts_retry_step:
  assumes "retryable (srv (sent w) req)" and "a < N \<longrightarrow> sleep_accepted plat (b ^ nat a)"
  shows "attempts plat srv nm req N b (a # rest) w =
           attempts plat srv nm req N b rest
             (w\<lparr>sent := Suc (sent w),
                trace := trace w @ Get req # (if a < N then [Sleep (b ^ nat a)] else []),
                logs := logs w @ (INFO, ''Requesting weather'')
                          # (WARNING, if srv (sent w) req = RaisedTimeout then ''Timeout fetching''
                                      else if srv (sent w) req = RaisedHTTPError then ''HTTP error''
                                      else ''Connection error'')
                          # (if a < N then [(INFO, ''Retrying'')] else [])\<rparr>)"
  using assms
  by (cases "srv (sent w) req")
     (auto simp add: retryable_def http_get_def log_msg_def time_sleep_accepted Let_def
           intro!: arg_cong[where f = "attempts plat srv nm req N b rest"] net.equality)

lemma attempts_all_retryable:
  assumes "\<forall>k \<in> set ks. k < N \<longrightarrow> sleep_accepted plat (b ^ nat k)"
  shows "\<forall>i < length ks. retryable (srv (sent w + i) req) \<Longrightarrow>
         \<exists>w'. attempts plat srv nm req N b ks w = (None, w')
            \<and> sent w' = sent w + length ks
            \<and> trace w' = trace w @ concat (map (\<lambda>k. Get req # (if k < N then [Sleep (b ^ nat k)] else [])) ks)"
  using assms
proof (induction ks arbitrary: w)
  case Nil
  then show ?case by simp
next
  case (Cons a ks)
  from Cons.prems have r0: "retryable (srv (sent w) req)" by force
  from Cons.prems have s0: "a < N \<longrightarrow> sleep_accepted plat (b ^ nat a)" by simp
  note st = attempts_retry_step[where srv = srv and w = w and req = req and b = b and plat = plat
                                  and nm = nm and N = N and a = a and rest = ks, OF r0 s0]
  let ?w1 = "w\<lparr>sent := Suc (sent w),
                trace := trace w @ Get req # (if a < N then [Sleep (b ^ nat a)] else []),
                logs := logs w @ (INFO, ''Requesting weather'')
                          # (WARNING, if srv (sent w) req = RaisedTimeout then ''Timeout fetching''
                                      else if srv (sent w) req = RaisedHTTPError then ''HTTP error''
                                      else ''Connection error'')
                          # (if a < N then [(INFO, ''Retrying'')] else [])\<rparr>"
  have h: "\<forall>i < length ks. retryable (srv (sent ?w1 + i) req)"
    using Cons.prems(1) by force
  have s: "\<forall>k \<in> set ks. k < N \<longrightarrow> sleep_accepted plat (b ^ nat k)"
    using Cons.prems(2) by simp
  from Cons.IH[OF h s] obtain w' where
    "attempts plat srv nm req N b ks ?w1 = (None, w')" "sent w' = sent ?w1 + length ks"
    "trace w' = trace ?w1 @ concat (map (\<lambda>k. Get req # (if k < N then [Sleep (b ^ nat k)] else [])) ks)"
    by blast
  with st show ?case by simp
qed

lemma attempts_unrecoverable_step:
  assumes "srv (sent w) req = RaisedRequestException"
  shows "attempts plat srv nm req N b (a # rest) w =
           (Some (Inr PNone),
            w\<lparr>sent := Suc (sent w), trace := trace w @ [Get req],
              logs := logs w @ [(INFO, ''Requesting weather''), (ERROR, ''Unrecoverable request error'')]\<rparr>)"
  using assms by (simp add: http_get_def log_msg_def Let_def)

lemma attempts_prefix_retryable:
  assumes "\<forall>k \<in> set pre. k < N \<longrightarrow> sleep_accepted plat (b ^ nat k)"
  shows "\<forall>i < length pre. retryable (srv (sent w + i) req) \<Longrightarrow>
         \<exists>w1. attempts plat srv nm req N b (pre @ rest) w = attempts plat srv nm req N b rest w1
            \<and> sent w1 = sent w + length pre
            \<and> trace w1 = trace w @ concat (map (\<lambda>k. Get req # (if k < N then [Sleep (b ^ nat k)] else [])) pre)"
  using assms
proof (induction pre arbitrary: w)
  case Nil
  show ?case by (intro exI[of _ w]) simp
next
  case (Cons p pre)
  from Cons.prems have r0: "retryable (srv (sent w) req)" by force
  from Cons.prems have s0: "p < N \<longrightarrow> sleep_accepted plat (b ^ nat p)" by simp
  note st = attempts_retry_step[where srv = srv and w = w and req = req and b = b and plat = plat
                                  and nm = nm and N = N and a = p and rest = "pre @ rest", OF r0 s0]
  let ?w1 = "w\<lparr>sent := Suc (sent w),
                trace := trace w @ Get req # (if p < N then [Sleep (b ^ nat p)] else []),
                logs := logs w @ (INFO, ''Requesting weather'')
                          # (WARNING, if srv (sent w) req = RaisedTimeout then ''Timeout fetching''
                                      else if srv (sent w) req = RaisedHTTPError then ''HTTP error''
                                      else ''Connection error'')
                          # (if p < N then [(INFO, ''Retrying'')] else [])\<rparr>"
  have h: "\<forall>i < length pre. retryable (srv (sent ?w1 + i) req)"
    using Cons.prems(1) by force
  have s: "\<forall>k \<in> set pre. k < N \<longrightarrow> sleep_accepted plat (b ^ nat k)"
    using Cons.prems(2) by simp
  from Cons.IH[OF h s] obtain w2 where
    "attempts plat srv nm req N b (pre @ rest) ?w1 = attempts plat srv nm req N b rest w2"
    "sent w2 = sent ?w1 + length pre"
    "trace w2 = trace ?w1 @ concat (map (\<lambda>k. Get req # (if k < N then [Sleep (b ^ nat k)] else [])) pre)"
    by blast
  with st show ?case by (intro exI[of _ w2]) simp
qed

lemma attempts_sleep_refused_step:
  assumes "retryable (srv (sent w) req)" and "a < N" and "time_sleep plat (b ^ nat a) w0 = Inl e"
  shows "\<exists>w'. attempts plat srv nm req N b (a # rest) w = (Some (Inl e), w')
           \<and> sent w' = Suc (sent w) \<and> trace w' = trace w @ [Get req]"
proof -
  have ts: "time_sleep plat (b ^ nat a) v = Inl e" for v
    using assms(3) by (auto simp: time_sleep_def split: if_splits option.splits)
  show ?thesis using assms(1,2)
    by (cases "srv (sent w) req")
       (simp_all add: retryable_def http_get_def log_msg_def ts Let_def)
qed

lemma attempts_never_raise:
  assumes "\<forall>n e. srv n req \<noteq> RaisedOther e"
      and "\<forall>k \<in> set ks. k < N \<longrightarrow> sleep_accepted plat (b ^ nat k)"
  shows "fst (attempts plat srv nm req N b ks w) \<noteq> Some (Inl e)"
  using assms(2)
proof (induction ks arbitrary: w)
  case Nil
  then show ?case by simp
next
  case (Cons a ks)
  have s0: "a < N \<longrightarrow> sleep_accepted plat (b ^ nat a)" using Cons.prems by simp
  have s: "\<forall>k \<in> set ks. k < N \<longrightarrow> sleep_accepted plat (b ^ nat k)" using Cons.prems by simp
  show ?case
  proof (cases "retryable (srv (sent w) req)")
    case True
    from attempts_retry_step[where srv = srv and w = w and req = req and b = b and plat = plat
                               and nm = nm and N = N and a = a and rest = ks, OF True s0]
         Cons.IH[OF s]
    show ?thesis by simp
  next
    case False
    with assms(1)[rule_format, of "sent w"] show ?thesis
      by (cases "srv (sent w) req")
         (simp_all add: retryable_def http_get_def log_msg_def Let_def)
  qed
qed

lemma fetch_weather_returns:
  assumes "\<forall>n r e. srv n r \<noteq> RaisedOther e"
      and "\<forall>k. 1 \<le> k \<and> k < max_retries \<longrightarrow> sleep_accepted plat (backoff_factor ^ nat k)"
  shows "\<exists>v w'. fetch_weather plat srv c base_url timeout max_retries backoff_factor current_weather w
                  = (Inr v, w')"
proof -
  let ?req = "request_of c base_url timeout current_weather"
  have a: "\<forall>n e. srv n ?req \<noteq> RaisedOther e" using assms(1) by blast
  have b: "\<forall>k \<in> set [1..max_retries]. k < max_retries \<longrightarrow> sleep_accepted plat (backoff_factor ^ nat k)"
    using assms(2) by simp
  obtain r w1 where at: "attempts plat srv (name c) ?req max_retries backoff_factor [1..max_retries] w = (r, w1)"
    by (cases "attempts plat srv (name c) ?req max_retries backoff_factor [1..max_retries] w")
  have nr: "r \<noteq> Some (Inl e)" for e
    using attempts_never_raise[where srv = srv and req = ?req and ks = "[1..max_retries]"
            and N = max_retries and plat = plat and b = backoff_factor and nm = "name c"
            and w = w and e = e, OF a b] at by simp
  show ?thesis
  proof (cases r)
    case None
    with at show ?thesis by (simp add: fetch_weather_unfold)
  next
    case (Some x)
    with nr obtain v where "x = Inr v" by (cases x) auto
    with Some at show ?thesis by (simp add: fetch_weather_unfold)
  qed
qed

text \<open>
  C1. When every attempt of a call fails with a retryable error (the timeout, HTTP
  status or connection error clause) and \<open>time.sleep\<close> accepts every back-off duration
  \<open>backoff_factor ^ k\<close> for \<open>1 \<le> k < max_retries\<close>, \<open>fetch_weather\<close> sends exactly
  \<open>max_retries\<close> requests, sleeps \<open>backoff_factor ^ attempt\<close> after each of the attempts
  \<open>1 .. max_retries - 1\<close> and not after the last one, and returns \<open>None\<close> without
  raising.
\<close>

theorem fetch_weather_exhausts_retries:
  assumes "\<forall>k. 1 \<le> k \<and> k < max_retries \<longrightarrow> sleep_accepted plat (backoff_factor ^ nat k)"
    and "\<forall>i < nat max_retries.
           retryable (srv (sent w + i) (request_of c base_url timeout current_weather))"
  shows "\<exists>w'. fetch_weather plat srv c base_url timeout max_retries backoff_factor current_weather w
                 = (Inr PNone, w')
           \<and> sent w' = sent w + nat max_retries
           \<and> trace w' = trace w @ concat (map
                 (\<lambda>attempt. Get (request_of c base_url timeout current_weather)
                    # (if attempt < max_retries then [Sleep (backoff_factor ^ nat attempt)] else []))
                 [1..max_retries])"
proof -
  let ?req = "request_of c base_url timeout current_weather"
  have r: "\<forall>i < length [1..max_retries]. retryable (srv (sent w + i) ?req)"
    using assms(2) by simp
  have s: "\<forall>k \<in> set [1..max_retries]. k < max_retries \<longrightarrow> sleep_accepted plat (backoff_factor ^ nat k)"
    using assms(1) by simp
  from attempts_all_retryable[where srv = srv and w = w and req = ?req and b = backoff_factor
         and plat = plat and nm = "name c" and N = max_retries and ks = "[1..max_retries]", OF s r]
  obtain w' where "attempts plat srv (name c) ?req max_retries backoff_factor [1..max_retries] w = (None, w')"
    and "sent w' = sent w + length [1..max_retries]"
    and "trace w' = trace w @ concat (map (\<lambda>k. Get ?req # (if k < max_retries then [Sleep (backoff_factor ^ nat k)] else [])) [1..max_retries])"
    by blast
  then show ?thesis
    by (simp add: fetch_weather_unfold log_msg_def)
qed

theorem fetch_weather_exhausts_retries_witness:
  "\<exists>w'. fetch_weather sleeps (\<lambda>n r. RaisedTimeout) PARIS ''https://api.open-meteo.com/v1/forecast'' 10 3 2 True net0
           = (Inr PNone, w')
      \<and> sent w' = 3
      \<and> trace w' =
          [Get (request_of PARIS ''https://api.open-meteo.com/v1/forecast'' 10 True), Sleep 2,
           Get (request_of PARIS ''https://api.open-meteo.com/v1/forecast'' 10 True), Sleep 4,
           Get (request_of PARIS ''https://api.open-meteo.com/v1/forecast'' 10 True)]"
proof -
  have s: "\<forall>k. 1 \<le> k \<and> k < 3 \<longrightarrow> sleep_accepted sleeps ((2::int) ^ nat k)"
  proof (intro allI impI)
    fix k :: int assume "1 \<le> k \<and> k < 3"
    then have "k = 1 \<or> k = 2" by presburger
    then show "sleep_accepted sleeps ((2::int) ^ nat k)"
      by (auto simp: sleep_accepted_def sleeps_def)
  qed
  have r: "\<forall>i < nat 3. retryable ((\<lambda>n r. RaisedTimeout) (sent net0 + i)
             (request_of PARIS ''https://api.open-meteo.com/v1/forecast'' 10 True))"
    by (simp add: retryable_def)
  from fetch_weather_exhausts_retries[where plat = sleeps and max_retries = 3 and backoff_factor = 2
         and srv = "\<lambda>n r. RaisedTimeout" and w = net0 and c = PARIS
         and base_url = "''https://api.open-meteo.com/v1/forecast''" and timeout = 10
         and current_weather = True, OF s r]
  show ?thesis by (simp add: net0_def upto_rec1)
qed

text \<open>The back-off durations of the default base stay in range up to attempt 33.\<close>

lemma two_pow_le_33:
  assumes "1 \<le> k" and "k \<le> 33"
  shows "(2::int) ^ nat k * 10 ^ 9 < 2 ^ 63"
proof -
  have "nat k \<le> 33" using assms by simp
  then have "(2::int) ^ nat k \<le> 2 ^ 33" by (intro power_increasing) simp_all
  then have "(2::int) ^ nat k * 10 ^ 9 \<le> 2 ^ 33 * 10 ^ 9" by simp
  also have "\<dots> < (2::int) ^ 63" by simp
  finally show ?thesis .
qed

text \<open>
  With two attempts and the back-off base \<open>10 ^ 10\<close>, or with 35 attempts and the default
  base 2, every attempt timing out: \<open>time.sleep\<close> raises \<open>OverflowError\<close> on the first
  duration of \<open>2 ^ 63\<close> nanoseconds or more, so \<open>fetch_weather\<close> raises after 1 request
  (of 2), or after 34 requests (of 35).
\<close>

theorem fetch_weather_sleep_overflow:
  "fst (fetch_weather sleeps always_times_out PARIS ''https://api.open-meteo.com/v1/forecast''
          10 2 10000000000 True net0) = Inl OverflowError
   \<and> sent (snd (fetch_weather sleeps always_times_out PARIS ''https://api.open-meteo.com/v1/forecast''
          10 2 10000000000 True net0)) = 1
   \<and> fst (fetch_weather sleeps always_times_out PARIS ''https://api.open-meteo.com/v1/forecast''
          10 35 2 True net0) = Inl OverflowError
   \<and> sent (snd (fetch_weather sleeps always_times_out PARIS ''https://api.open-meteo.com/v1/forecast''
          10 35 2 True net0)) = 34"
proof -
  let ?srv = always_times_out
  let ?url = "''https://api.open-meteo.com/v1/forecast''"
  let ?req = "request_of PARIS ?url 10 True"
  have a: "fetch_weather sleeps ?srv PARIS ?url 10 2 10000000000 True net0
             = (Inl OverflowError,
                \<lparr>sent = 1, trace = [Get ?req],
                 logs = [(INFO, ''Requesting weather''), (WARNING, ''Timeout fetching''),
                         (INFO, ''Retrying'')]\<rparr>)"
    by (simp add: fetch_weather_unfold upto_rec1 http_get_def log_msg_def time_sleep_def
          net0_def Let_def always_times_out_def)
  have split: "[1..35] = [1..33] @ 34 # [35..(35::int)]"
    using upto_split3[of 1 34 35] by simp
  have s: "\<forall>k \<in> set [1..33]. k < 35 \<longrightarrow> sleep_accepted sleeps ((2::int) ^ nat k)"
  proof (intro ballI impI)
    fix k :: int assume "k \<in> set [1..33]"
    then have "1 \<le> k" and "k \<le> 33" by simp_all
    from two_pow_le_33[OF this] show "sleep_accepted sleeps ((2::int) ^ nat k)"
      unfolding sleep_accepted_def sleeps_def by simp
  qed
  have r: "\<forall>i < length [1..(33::int)]. retryable (?srv (sent net0 + i) ?req)"
    by (simp add: retryable_def always_times_out_def)
  from attempts_prefix_retryable[where srv = ?srv and w = net0 and req = ?req and b = 2
         and plat = sleeps and nm = "name PARIS" and N = 35 and pre = "[1..33]"
         and rest = "34 # [35..35]", OF s r]
  obtain w1 where p: "attempts sleeps ?srv (name PARIS) ?req 35 2 [1..35] net0
                        = attempts sleeps ?srv (name PARIS) ?req 35 2 (34 # [35..35]) w1"
    and s1: "sent w1 = sent net0 + length [1..(33::int)]"
    unfolding split by blast
  have ts: "time_sleep sleeps ((2::int) ^ nat 34) net0 = Inl OverflowError"
    by (simp add: time_sleep_def)
  from attempts_sleep_refused_step[where srv = ?srv and w = w1 and req = ?req and a = 34 and N = 35
         and plat = sleeps and b = 2 and ?w0.0 = net0 and e = OverflowError
         and nm = "name PARIS" and rest = "[35..35]", OF _ _ ts]
  obtain w2 where q: "attempts sleeps ?srv (name PARIS) ?req 35 2 (34 # [35..35]) w1 = (Some (Inl OverflowError), w2)"
    and s2: "sent w2 = Suc (sent w1)"
    by (auto simp: retryable_def always_times_out_def)
  have b: "fetch_weather sleeps ?srv PARIS ?url 10 35 2 True net0 = (Inl OverflowError, w2)"
    using p q by (simp add: fetch_weather_unfold)
  have "sent w2 = 34" using s1 s2 by (simp add: net0_def)
  with a b show ?thesis by simp
qed

text \<open>
  C5. At any attempt of the loop, whatever the state and the attempts still to run: when
  the request fails with an unrecoverable request error, the loop is left at once with
  the value \<open>None\<close>, after that one request and without a sleep. So when attempt number
  \<open>k\<close> of a call is the first one that fails in this way (the attempts before it failed
  with retryable errors and their back-off sleeps were accepted), \<open>fetch_weather\<close> returns
  \<open>None\<close> right after that attempt: \<open>k\<close> requests have been sent, no sleep follows the last
  one, and the attempts \<open>k + 1 .. max_retries\<close> are never made. With \<open>k = 1\<close> exactly one
  request is sent and nothing is slept.
\<close>

theorem fetch_weather_unrecoverable_aborts:
  "(srv (sent v) req = RaisedRequestException \<longrightarrow>
      (\<exists>v'. attempts plat srv nm req max_retries backoff_factor (attempt # rest) v
               = (Some (Inr PNone), v')
           \<and> sent v' = Suc (sent v) \<and> trace v' = trace v @ [Get req]))
   \<and> (1 \<le> k \<and> k \<le> max_retries
       \<and> (\<forall>j. 1 \<le> j \<and> j < k \<longrightarrow> sleep_accepted plat (backoff_factor ^ nat j))
       \<and> (\<forall>i < nat (k - 1).
             retryable (srv (sent w + i) (request_of c base_url timeout current_weather)))
       \<and> srv (sent w + nat (k - 1)) (request_of c base_url timeout current_weather)
             = RaisedRequestException \<longrightarrow>
      (\<exists>w'. fetch_weather plat srv c base_url timeout max_retries backoff_factor current_weather w
               = (Inr PNone, w')
           \<and> sent w' = sent w + nat k
           \<and> trace w' = trace w @ concat (map
                 (\<lambda>attempt. [Get (request_of c base_url timeout current_weather),
                              Sleep (backoff_factor ^ nat attempt)])
                 [1..k - 1])
               @ [Get (request_of c base_url timeout current_weather)]))"
proof (intro conjI impI)
  assume a: "srv (sent v) req = RaisedRequestException"
  show "\<exists>v'. attempts plat srv nm req max_retries backoff_factor (attempt # rest) v
               = (Some (Inr PNone), v')
           \<and> sent v' = Suc (sent v) \<and> trace v' = trace v @ [Get req]"
    unfolding attempts_unrecoverable_step[where srv = srv and w = v and req = req, OF a] by simp
next
  let ?req = "request_of c base_url timeout current_weather"
  assume h: "1 \<le> k \<and> k \<le> max_retries
       \<and> (\<forall>j. 1 \<le> j \<and> j < k \<longrightarrow> sleep_accepted plat (backoff_factor ^ nat j))
       \<and> (\<forall>i < nat (k - 1). retryable (srv (sent w + i) ?req))
       \<and> srv (sent w + nat (k - 1)) ?req = RaisedRequestException"
  then have k1: "1 \<le> k" and k2: "k \<le> max_retries" by simp_all
  have split: "[1..max_retries] = [1..k - 1] @ k # [k + 1..max_retries]"
    using k1 k2 by (rule upto_split3)
  have s: "\<forall>j \<in> set [1..k - 1]. j < max_retries \<longrightarrow> sleep_accepted plat (backoff_factor ^ nat j)"
    using h by simp
  have r: "\<forall>i < length [1..k - 1]. retryable (srv (sent w + i) ?req)"
    using h by simp
  from attempts_prefix_retryable[where srv = srv and w = w and req = ?req and b = backoff_factor
         and plat = plat and nm = "name c" and N = max_retries and pre = "[1..k - 1]"
         and rest = "k # [k + 1..max_retries]", OF s r]
  obtain w1 where p: "attempts plat srv (name c) ?req max_retries backoff_factor [1..max_retries] w
                        = attempts plat srv (name c) ?req max_retries backoff_factor (k # [k + 1..max_retries]) w1"
    and s1: "sent w1 = sent w + length [1..k - 1]"
    and t1: "trace w1 = trace w @ concat (map (\<lambda>j. Get ?req # (if j < max_retries then [Sleep (backoff_factor ^ nat j)] else [])) [1..k - 1])"
    unfolding split by blast
  have u: "srv (sent w1) ?req = RaisedRequestException"
    using h s1 k1 by simp
  have m: "map (\<lambda>j. Get ?req # (if j < max_retries then [Sleep (backoff_factor ^ nat j)] else [])) [1..k - 1]
         = map (\<lambda>j. [Get ?req, Sleep (backoff_factor ^ nat j)]) [1..k - 1]"
    using k2 by (intro map_cong) auto
  have n: "length [1..k - 1] + 1 = nat k" using k1 by simp
  show "\<exists>w'. fetch_weather plat srv c base_url timeout max_retries backoff_factor current_weather w
               = (Inr PNone, w')
           \<and> sent w' = sent w + nat k
           \<and> trace w' = trace w @ concat (map
                 (\<lambda>attempt. [Get ?req, Sleep (backoff_factor ^ nat attempt)]) [1..k - 1])
               @ [Get ?req]"
    using trans[OF p attempts_unrecoverable_step[where srv = srv and w = w1 and req = ?req, OF u]]
          s1 t1 unfolding m
    by (simp add: fetch_weather_unfold n[symmetric] del: attempts.simps)
qed

theorem fetch_weather_unrecoverable_aborts_witness:
  "(\<exists>w'. fetch_weather sleeps (\<lambda>n r. RaisedRequestException) PARIS
            ''https://api.open-meteo.com/v1/forecast'' 10 3 1 True net0 = (Inr PNone, w')
        \<and> sent w' = 1
        \<and> trace w' = [Get (request_of PARIS ''https://api.open-meteo.com/v1/forecast'' 10 True)])
   \<and> (\<exists>w'. fetch_weather sleeps timeout_then_fatal PARIS
            ''https://api.open-meteo.com/v1/forecast'' 10 3 2 True net0 = (Inr PNone, w')
        \<and> sent w' = 2
        \<and> trace w' = [Get (request_of PARIS ''https://api.open-meteo.com/v1/forecast'' 10 True),
                       Sleep 2,
                       Get (request_of PARIS ''https://api.open-meteo.com/v1/forecast'' 10 True)])"
proof -
  let ?url = "''https://api.open-meteo.com/v1/forecast''"
  have s2: "\<forall>j. 1 \<le> j \<and> j < 2 \<longrightarrow> sleep_accepted sleeps ((2::int) ^ nat j)"
  proof (intro allI impI)
    fix j :: int assume "1 \<le> j \<and> j < 2"
    then have "j = 1" by simp
    then show "sleep_accepted sleeps ((2::int) ^ nat j)"
      by (simp add: sleep_accepted_def sleeps_def)
  qed
  have s1: "\<forall>j. 1 \<le> j \<and> j < 1 \<longrightarrow> sleep_accepted sleeps ((1::int) ^ nat j)"
    by auto
  from fetch_weather_unrecoverable_aborts[where k = 1 and max_retries = 3 and backoff_factor = 1
         and plat = sleeps and srv = "\<lambda>n r. RaisedRequestException" and w = net0 and c = PARIS
         and base_url = ?url and timeout = 10 and current_weather = True
         and v = net0 and req = "request_of PARIS ?url 10 True"
         and nm = "''Paris''" and attempt = 1 and rest = "[]", THEN conjunct2] s1
  have a: "\<exists>w'. fetch_weather sleeps (\<lambda>n r. RaisedRequestException) PARIS ?url 10 3 1 True net0
             = (Inr PNone, w')
        \<and> sent w' = 1 \<and> trace w' = [Get (request_of PARIS ?url 10 True)]"
    by (simp add: net0_def)
  from fetch_weather_unrecoverable_aborts[where k = 2 and max_retries = 3 and backoff_factor = 2
         and plat = sleeps and srv = timeout_then_fatal and w = net0 and c = PARIS
         and base_url = ?url and timeout = 10 and current_weather = True
         and v = "net0\<lparr>sent := 1\<rparr>" and req = "request_of PARIS ?url 10 True"
         and nm = "''Paris''" and attempt = 2 and rest = "[3]", THEN conjunct2] s2
  have b: "\<exists>w'. fetch_weather sleeps timeout_then_fatal PARIS ?url 10 3 2 True net0 = (Inr PNone, w')
        \<and> sent w' = 2
        \<and> trace w' = [Get (request_of PARIS ?url 10 True), Sleep 2, Get (request_of PARIS ?url 10 True)]"
    by (auto simp: net0_def timeout_then_fatal_def retryable_def)
  from a b show ?thesis by (rule conjI)
qed

text \<open>
  C10. With \<open>max_retries \<le> 0\<close> the loop body never runs: \<open>fetch_weather\<close> sends no
  request, does not sleep, and returns \<open>None\<close> without raising; only the final error
  line is logged.
\<close>

theorem fetch_weather_no_attempts:
  assumes "max_retries \<le> 0"
  shows "fetch_weather plat srv c base_url timeout max_retries backoff_factor current_weather w =
           (Inr PNone, log_msg ERROR ''All attempts failed'' w)
         \<and> sent (log_msg ERROR ''All attempts failed'' w) = sent w
         \<and> trace (log_msg ERROR ''All attempts failed'' w) = trace w"
  using assms by (simp add: fetch_weather_unfold log_msg_def)

theorem fetch_weather_no_attempts_witness:
  "fetch_weather sleeps (\<lambda>n r. Returned SAMPLE_RESPONSE) PARIS ''https://api.open-meteo.com/v1/forecast'' 10 0 2 True net0 =
     (Inr PNone, \<lparr>sent = 0, trace = [], logs = [(ERROR, ''All attempts failed'')]\<rparr>)"
  using fetch_weather_no_attempts
          [of 0 sleeps "\<lambda>n r. Returned SAMPLE_RESPONSE" PARIS "''https://api.open-meteo.com/v1/forecast''" 10 2 True net0]
  by (simp add: log_msg_def net0_def)

section \<open>Properties of the Extractor\<close>

lemma length_fetch_each: "length (fetch_each f cfg cs w) = length cs"
  by (induction cs arbitrary: w) (auto split: prod.splits)

lemma extract_loop_collects:
  "\<forall>r \<in> set (fetch_each f cfg cs w). \<exists>v. r = Inr v \<Longrightarrow>
   \<exists>w'. extract_loop f cfg cs acc w
          = (Inr (acc @ List.map_filter success_record (zip cs (fetch_each f cfg cs w))), w')"
proof (induction cs arbitrary: acc w)
  case Nil
  then show ?case by (simp add: List.map_filter_simps)
next
  case (Cons c cs)
  obtain r w1 where call: "call_fetcher f cfg c w = (r, w1)"
    by (cases "call_fetcher f cfg c w")
  from Cons.prems call obtain raw where r: "r = Inr raw" by auto
  from Cons.prems call have rest: "\<forall>r \<in> set (fetch_each f cfg cs w1). \<exists>v. r = Inr v" by simp
  show ?case
  proof (cases "raw = PNone")
    case True
    from Cons.IH[OF rest, of acc] show ?thesis
      using call r True by (simp add: List.map_filter_simps)
  next
    case False
    from Cons.IH[OF rest, of "acc @ [extracted_record c raw]"] show ?thesis
      using call r False by (simp add: List.map_filter_simps)
  qed
qed

lemma extract_loop_propagates:
  "Inl e \<in> set (fetch_each f cfg cs w) \<Longrightarrow> \<exists>e' w'. extract_loop f cfg cs acc w = (Inl e', w')"
proof (induction cs arbitrary: acc w)
  case Nil
  then show ?case by simp
next
  case (Cons c cs)
  obtain r w1 where call: "call_fetcher f cfg c w = (r, w1)"
    by (cases "call_fetcher f cfg c w")
  show ?case
  proof (cases r)
    case (Inl e')
    with call show ?thesis by simp
  next
    case (Inr raw)
    with Cons.prems call have "Inl e \<in> set (fetch_each f cfg cs w1)" by auto
    from Cons.IH[OF this] call Inr show ?thesis by (cases "raw = PNone") simp_all
  qed
qed

lemma length_map_filter_le: "length (List.map_filter g xs) \<le> length xs"
  by (simp add: List.map_filter_def)

lemma length_map_filter_less:
  "x \<in> set xs \<Longrightarrow> g x = None \<Longrightarrow> length (List.map_filter g xs) < length xs"
  by (simp add: List.map_filter_def length_filter_less)

lemma fetch_each_returns:
  assumes "\<forall>n r e. srv n r \<noteq> RaisedOther e"
      and "\<forall>k. 1 \<le> k \<and> k < dict_get (api_max_retries cfg) 3 \<longrightarrow>
             sleep_accepted plat (dict_get (api_backoff_factor cfg) 2 ^ nat k)"
  shows "\<forall>r \<in> set (fetch_each (fetch_weather plat srv) cfg cs w). \<exists>v. r = Inr v"
proof (induction cs arbitrary: w)
  case Nil
  then show ?case by simp
next
  case (Cons c cs)
  from fetch_weather_returns[OF assms, of c "api_base_url cfg" "dict_get (api_timeout_seconds cfg) 10"
         "dict_get (api_current_weather cfg) True" w]
  obtain v w1 where "call_fetcher (fetch_weather plat srv) cfg c w = (Inr v, w1)"
    by (auto simp: call_fetcher_def)
  with Cons.IH[of w1] show ?case by simp
qed

text \<open>
  C2. When no attempt raises an exception outside the \<open>requests\<close> hierarchy and
  \<open>time.sleep\<close> accepts every back-off duration of the configuration, \<open>extract_all\<close>
  does not raise and returns exactly the \<open>{city, raw}\<close> records of the cities whose
  fetch returned a payload, in the order of the input list with the other cities
  dropped. The output is never longer than the input, and strictly shorter when some
  city failed.
\<close>

theorem extract_all_collects_successes:
  assumes "\<forall>n r e. srv n r \<noteq> RaisedOther e"
      and "\<forall>k. 1 \<le> k \<and> k < dict_get (api_max_retries cfg) 3 \<longrightarrow>
             sleep_accepted plat (dict_get (api_backoff_factor cfg) 2 ^ nat k)"
  shows "\<exists>w'. extract_all plat srv cities cfg w
                 = (Inr (List.map_filter success_record
                           (zip cities (fetch_each (fetch_weather plat srv) cfg cities w))), w')
           \<and> length (List.map_filter success_record
                       (zip cities (fetch_each (fetch_weather plat srv) cfg cities w)))
                 \<le> length cities
           \<and> (Inr PNone \<in> set (fetch_each (fetch_weather plat srv) cfg cities w) \<longrightarrow>
                length (List.map_filter success_record
                          (zip cities (fetch_each (fetch_weather plat srv) cfg cities w)))
                  < length cities)"
proof -
  let ?rs = "fetch_each (fetch_weather plat srv) cfg cities w"
  from extract_loop_collects[OF fetch_each_returns[OF assms], where cs = cities and w = w and acc = "[]"]
  obtain w1 where
    loop: "extract_loop (fetch_weather plat srv) cfg cities [] w
             = (Inr (List.map_filter success_record (zip cities ?rs)), w1)"
    by auto
  have le: "length (List.map_filter success_record (zip cities ?rs)) \<le> length cities"
    using length_map_filter_le[of success_record "zip cities ?rs"] by (simp add: length_fetch_each)
  have less: "length (List.map_filter success_record (zip cities ?rs)) < length cities"
    if "Inr PNone \<in> set ?rs"
  proof -
    from that obtain i where i: "i < length ?rs" "?rs ! i = Inr PNone"
      by (auto simp: in_set_conv_nth)
    then have "(cities ! i, Inr PNone) \<in> set (zip cities ?rs)"
      by (auto simp: set_zip length_fetch_each)
    from length_map_filter_less[OF this, of success_record]
    show ?thesis by (simp add: length_fetch_each)
  qed
  show ?thesis using loop le less by (simp add: extract_all_def extract_all_with_def)
qed

theorem extract_all_collects_successes_witness:
  "(\<exists>w'. extract_all sleeps paris_only [BAD, PARIS] API_CONFIG net0
            = (Inr [PDict [(''city'', PStr ''Paris''), (''raw'', SAMPLE_RESPONSE)]], w'))
   \<and> length [PDict [(''city'', PStr ''Paris''), (''raw'', SAMPLE_RESPONSE)]] < length [BAD, PARIS]"
proof -
  have fe: "fetch_each (fetch_weather sleeps paris_only) API_CONFIG [BAD, PARIS] net0
              = [Inr PNone, Inr SAMPLE_RESPONSE]"
    by (simp add: call_fetcher_def fetch_weather_def API_CONFIG_def dict_get_def paris_only_def
          PARIS_def BAD_def net0_def http_get_def log_msg_def time_sleep_def sleeps_def
          Let_def upto_rec1)
  have h1: "\<forall>n r e. paris_only n r \<noteq> RaisedOther e"
    by (simp add: paris_only_def)
  have h2: "\<forall>k. 1 \<le> k \<and> k < dict_get (api_max_retries API_CONFIG) 3 \<longrightarrow>
             sleep_accepted sleeps (dict_get (api_backoff_factor API_CONFIG) 2 ^ nat k)"
    by (simp add: API_CONFIG_def dict_get_def sleep_accepted_def sleeps_def)
  have mf: "List.map_filter success_record (zip [BAD, PARIS] [Inr PNone, Inr SAMPLE_RESPONSE])
              = [PDict [(''city'', PStr ''Paris''), (''raw'', SAMPLE_RESPONSE)]]"
    by (simp add: List.map_filter_simps extracted_record_def PARIS_def SAMPLE_RESPONSE_def)
  from extract_all_collects_successes[OF h1 h2, where cities = "[BAD, PARIS]" and w = net0]
  show ?thesis
    unfolding fe mf by simp
qed

text \<open>
  \<open>extract_all\<close> has no handler around \<open>fetch_weather\<close>: with the back-off base
  \<open>10 ^ 10\<close> and a city that times out, the \<open>OverflowError\<close> of \<open>time.sleep\<close> leaves
  \<open>extract_all\<close>.
\<close>

theorem extract_all_raises_on_sleep_overflow:
  "fst (extract_all sleeps always_times_out [PARIS] HUGE_BACKOFF net0) = Inl OverflowError"
  by (simp add: extract_all_def extract_all_with_def call_fetcher_def fetch_weather_def
        HUGE_BACKOFF_def dict_get_def net0_def http_get_def log_msg_def time_sleep_def
        Let_def upto_rec1 always_times_out_def)

text \<open>A response whose body is JSON \<open>null\<close> counts as no result.\<close>

lemma extract_all_drops_null_body:
  "fst (extract_all sleeps (\<lambda>n r. Returned PNone) [PARIS] API_CONFIG net0) = Inr []"
  by (simp add: extract_all_def extract_all_with_def call_fetcher_def fetch_weather_def
        API_CONFIG_def dict_get_def net0_def http_get_def log_msg_def
        Let_def upto_rec1)

section \<open>Properties of the Normalizer and of the Load stage\<close>

lemma zip_map_right: "zip xs (map g xs) = map (\<lambda>x. (x, g x)) xs"
  by (induction xs) auto

lemma zip_map_both: "zip (map f xs) (map g xs) = map (\<lambda>x. (f x, g x)) xs"
  by (induction xs) auto

lemma coerce_types_Inr:
  "coerce_types pn df = Inr df' \<Longrightarrow> df' = df\<lparr>rows := map (coerced_row pn) (rows df)\<rparr>"
  by (auto simp: coerce_types_def set_column_def to_numeric_coerce_def astype_Int64_def Let_def
        zip_map_right zip_map_both coerced_row_def o_def split: if_splits sum.splits)

lemma parse_single_Some:
  "parse_single clk rec w = (Inr (Some r), w') \<Longrightarrow>
     retrieval_timestamp r = Obj (PStr (clk (clock_reads w))) \<and> clock_reads w' = Suc (clock_reads w)"
  by (auto simp: parse_single_def build_parsed_def utc_now_iso_def tlog_def
        split: sum.splits if_splits prod.splits)

lemma parse_single_None:
  "parse_single clk rec w = (Inr None, w') \<Longrightarrow> clock_reads w' = clock_reads w"
  by (auto simp: parse_single_def build_parsed_def utc_now_iso_def tlog_def
        split: sum.splits if_splits prod.splits)

lemma parse_single_Inl:
  "parse_single clk rec w = (Inl e, w') \<Longrightarrow> w' = w"
  by (auto simp: parse_single_def build_parsed_def utc_now_iso_def tlog_def
        split: sum.splits if_splits prod.splits)

lemma parse_loop_timestamps:
  "parse_loop clk recs acc w = (Inr rs, w') \<Longrightarrow>
     clock_reads w \<le> clock_reads w' \<and>
     map retrieval_timestamp rs =
       map retrieval_timestamp acc @ map (\<lambda>i. Obj (PStr (clk i))) [clock_reads w ..< clock_reads w']"
proof (induction recs arbitrary: acc w)
  case Nil
  then show ?case by simp
next
  case (Cons rec recs)
  obtain res w1 where ps: "parse_single clk rec w = (res, w1)"
    by (cases "parse_single clk rec w")
  show ?case
  proof (cases res)
    case (Inl e)
    with Cons.prems ps show ?thesis by simp
  next
    case (Inr opt)
    show ?thesis
    proof (cases opt)
      case None
      with Inr ps have c: "clock_reads w1 = clock_reads w"
        using parse_single_None by blast
      from Cons.prems ps Inr None have "parse_loop clk recs acc w1 = (Inr rs, w')" by simp
      from Cons.IH[OF this] c show ?thesis by simp
    next
      case (Some p)
      with Inr ps have c: "clock_reads w1 = Suc (clock_reads w)"
        and t: "retrieval_timestamp p = Obj (PStr (clk (clock_reads w)))"
        using parse_single_Some by blast+
      from Cons.prems ps Inr Some have "parse_loop clk recs (acc @ [p]) w1 = (Inr rs, w')" by simp
      from Cons.IH[OF this] c t show ?thesis by (simp add: upt_conv_Cons)
    qed
  qed
qed

lemma parse_loop_all_skipped:
  "\<forall>rec \<in> set recs. \<forall>w. fst (parse_single clk rec w) = Inr None \<Longrightarrow>
     \<exists>w'. parse_loop clk recs acc w = (Inr acc, w')"
proof (induction recs arbitrary: w)
  case Nil
  then show ?case by simp
next
  case (Cons rec recs)
  obtain res w1 where ps: "parse_single clk rec w = (res, w1)"
    by (cases "parse_single clk rec w")
  from Cons.prems have "fst (parse_single clk rec w) = Inr None" by simp
  with ps have "res = Inr None" by simp
  with ps Cons.IH[of w1] Cons.prems show ?case by simp
qed

lemma parse_single_non_mapping:
  assumes "map_of rec ''raw'' = Some (PDict raw)"
    and "map_of raw ''current_weather'' = Some current"
    and "current \<noteq> PNone" and "\<forall>kvs. current \<noteq> PDict kvs"
  shows "parse_single clk (PDict rec) w = (Inl AttributeError, w)"
  using assms by (cases current) (simp_all add: parse_single_def build_parsed_def)

text \<open>
  C3. A record whose \<open>current_weather\<close> entry is the number 5 is not skipped: the
  lookup \<open>current.get("time")\<close> raises \<open>AttributeError\<close>, which the
  \<open>except (KeyError, TypeError)\<close> clause does not catch, so the exception leaves
  \<open>_parse_single\<close> and \<open>transform\<close>, and the valid record after it is never
  processed.
\<close>

theorem transform_non_mapping_block_raises:
  "transform clk parse_number
     [PDict [(''city'', PStr ''Broken''), (''raw'', PDict [(''current_weather'', PInt 5)])],
      VALID_RECORD] w
   = (Inl AttributeError, w)"
  by (simp add: transform_def parse_single_def build_parsed_def)


lemma coerce_types_raises:
  assumes "r \<in> set (rows df)"
    and "to_numeric_cell pn (weathercode r) = Some q \<or> to_numeric_cell pn (is_day r) = Some q"
    and "\<not> int64_value q"
  shows "coerce_types pn df = Inl TypeError"
proof (cases "coerce_types pn df")
  case (Inl e)
  then show ?thesis
    by (auto simp: coerce_types_def astype_Int64_def Let_def split: if_splits sum.splits)
next
  case (Inr df')
  then have "list_all (\<lambda>x. case x of None \<Rightarrow> True | Some r \<Rightarrow> int64_value r)
             (map (\<lambda>r. to_numeric_cell pn (weathercode r)) (rows df))
           \<and> list_all (\<lambda>x. case x of None \<Rightarrow> True | Some r \<Rightarrow> int64_value r)
             (map (\<lambda>r. to_numeric_cell pn (is_day r)) (rows df))"
    by (auto simp: coerce_types_def set_column_def to_numeric_coerce_def astype_Int64_def Let_def
          zip_map_right zip_map_both o_def split: if_splits sum.splits)
  with assms show ?thesis by (auto simp: list_all_iff split: option.splits)
qed

lemma floor_seven_halves: "\<lfloor>7 / 2 :: rat\<rfloor> = 3"
  by (rule floor_unique) simp_all

lemma not_integral_seven_halves: "\<not> int64_value (7 / 2)"
  by (simp add: int64_value_def integral_def floor_seven_halves)

text \<open>
  C4. A batch with the weather code 3.5 makes \<open>transform\<close> raise: \<open>pd.to_numeric\<close>
  keeps the value 3.5, and \<open>astype("Int64")\<close> refuses a value that is not integral
  with \<open>TypeError\<close>. The value does not become null and no frame is returned.
\<close>

theorem transform_fractional_weathercode_raises:
  "fst (transform clk parse_number
     [PDict [(''city'', PStr ''Paris''),
             (''raw'', PDict [(''current_weather'',
                PDict [(''time'', PStr ''2026-02-18T22:00''), (''temperature'', PFloat (72 / 10)),
                       (''windspeed'', PFloat (125 / 10)), (''winddirection'', PInt 210),
                       (''weathercode'', PFloat (7 / 2)), (''is_day'', PInt 0)])])]] w)
   = Inl TypeError"
  by (simp add: transform_def parse_single_def build_parsed_def utc_now_iso_def coerce_types_def
        set_column_def to_numeric_coerce_def astype_Int64_def not_integral_seven_halves Let_def)

text \<open>The frame that \<open>transform\<close> returns on two valid records around a record without weather block.\<close>

lemma transform_fixture_batch:
  "transform tick_clock no_numbers [VALID_RECORD, RECORD_MISSING_CW, VALID_RECORD] tstate0 =
    (Inr \<lparr>columns = EXPECTED_COLUMNS,
          rows =
           [\<lparr>city = Obj (PStr ''Paris''), timestamp = Obj (PStr ''2026-02-18T22:00''),
              temperature_c = Float64 (Some (72 / 10)), windspeed_kmh = Float64 (Some (125 / 10)),
              winddirection_deg = Float64 (Some 210), weathercode = Int64 (Some 3),
              is_day = Int64 (Some 0),
              retrieval_timestamp = Obj (PStr ''2026-02-18T22:05:00+00:00'')\<rparr>,
            \<lparr>city = Obj (PStr ''Paris''), timestamp = Obj (PStr ''2026-02-18T22:00''),
              temperature_c = Float64 (Some (72 / 10)), windspeed_kmh = Float64 (Some (125 / 10)),
              winddirection_deg = Float64 (Some 210), weathercode = Int64 (Some 3),
              is_day = Int64 (Some 0),
              retrieval_timestamp = Obj (PStr ''2026-02-18T22:05:01+00:00'')\<rparr>]\<rparr>,
     \<lparr>clock_reads = 2,
        tlogs = [(WARNING, ''No current_weather block''), (INFO, ''Transform complete'')]\<rparr>)"
  by (simp add: transform_def parse_single_def build_parsed_def utc_now_iso_def coerce_types_def
        set_column_def to_numeric_coerce_def astype_Int64_def int64_value_def integral_def Let_def tlog_def
        VALID_RECORD_def RECORD_MISSING_CW_def CURRENT_def tstate0_def tick_clock_def)


















text \<open>
  C7. The \<open>retrieval_timestamp\<close> of a parsed record is the text of the UTC clock as
  read during that call of \<open>_parse_single\<close>; it is not null and does not depend on the
  payload. In the frame that \<open>transform\<close> returns, the column \<open>retrieval_timestamp\<close>
  holds, row by row, the successive clock readings made during the call.
\<close>

theorem retrieval_timestamp_is_clock_reading:
  "(parse_single clk rec w = (Inr (Some r), w') \<longrightarrow>
      retrieval_timestamp r = Obj (PStr (clk (clock_reads w)))
      \<and> retrieval_timestamp r \<noteq> Obj PNone
      \<and> clock_reads w' = Suc (clock_reads w))
   \<and> (transform clk parse_number raw_records w = (Inr df, w') \<longrightarrow>
      map retrieval_timestamp (rows df)
        = map (\<lambda>i. Obj (PStr (clk i))) [clock_reads w ..< clock_reads w']
      \<and> (\<forall>r \<in> set (rows df). retrieval_timestamp r \<noteq> Obj PNone))"
proof (intro conjI impI)
  assume ps: "parse_single clk rec w = (Inr (Some r), w')"
  from parse_single_Some[OF ps]
  show "retrieval_timestamp r = Obj (PStr (clk (clock_reads w)))"
    and "clock_reads w' = Suc (clock_reads w)" by simp_all
  then show "retrieval_timestamp r \<noteq> Obj PNone" by simp
next
  assume tr: "transform clk parse_number raw_records w = (Inr df, w')"
  obtain res w1 where pl: "parse_loop clk raw_records [] w = (res, w1)"
    by (cases "parse_loop clk raw_records [] w")
  with tr obtain rs where res: "res = Inr rs"
    by (cases res) (auto simp: transform_def)
  from parse_loop_timestamps[OF pl[unfolded res]]
  have ts: "map retrieval_timestamp rs = map (\<lambda>i. Obj (PStr (clk i))) [clock_reads w ..< clock_reads w1]"
    by simp
  have "map retrieval_timestamp (rows df) = map retrieval_timestamp rs \<and> clock_reads w' = clock_reads w1"
  proof (cases "rs = []")
    case True
    with tr pl res show ?thesis by (auto simp: transform_def tlog_def)
  next
    case False
    with tr pl res obtain df' where c: "coerce_types parse_number \<lparr>columns = EXPECTED_COLUMNS, rows = rs\<rparr> = Inr df'"
      and d: "df = df'" and w: "w' = tlog INFO ''Transform complete'' w1"
      by (auto simp: transform_def split: sum.splits)
    from coerce_types_Inr[OF c] d w show ?thesis
      by (simp add: coerced_row_def o_def tlog_def)
  qed
  with ts show m: "map retrieval_timestamp (rows df)
        = map (\<lambda>i. Obj (PStr (clk i))) [clock_reads w ..< clock_reads w']" by simp
  show "\<forall>r \<in> set (rows df). retrieval_timestamp r \<noteq> Obj PNone"
  proof
    fix r assume "r \<in> set (rows df)"
    then have "retrieval_timestamp r \<in> set (map retrieval_timestamp (rows df))" by simp
    then show "retrieval_timestamp r \<noteq> Obj PNone" unfolding m by auto
  qed
qed

theorem retrieval_timestamp_is_clock_reading_witness:
  "(\<exists>r w'. parse_single tick_clock PARTIAL_RECORD tstate0 = (Inr (Some r), w')
       \<and> retrieval_timestamp r = Obj (PStr ''2026-02-18T22:05:00+00:00''))
   \<and> (\<exists>df w'. transform tick_clock no_numbers [VALID_RECORD, RECORD_MISSING_CW, VALID_RECORD] tstate0
                 = (Inr df, w')
       \<and> map retrieval_timestamp (rows df)
           = [Obj (PStr ''2026-02-18T22:05:00+00:00''), Obj (PStr ''2026-02-18T22:05:01+00:00'')])"
proof -
  have "\<exists>r w'. parse_single tick_clock PARTIAL_RECORD tstate0 = (Inr (Some r), w')"
    by (simp add: parse_single_def build_parsed_def utc_now_iso_def PARTIAL_RECORD_def)
  then obtain r w1 where p: "parse_single tick_clock PARTIAL_RECORD tstate0 = (Inr (Some r), w1)"
    by blast
  obtain df w2 where t: "transform tick_clock no_numbers [VALID_RECORD, RECORD_MISSING_CW, VALID_RECORD] tstate0
                           = (Inr df, w2)" and c: "clock_reads w2 = 2"
    using transform_fixture_batch by simp
  from retrieval_timestamp_is_clock_reading
         [where clk = tick_clock and rec = PARTIAL_RECORD and w = tstate0 and r = r and w' = w1]
       p
  have a: "retrieval_timestamp r = Obj (PStr ''2026-02-18T22:05:00+00:00'')"
    by (simp add: tick_clock_def tstate0_def)
  from retrieval_timestamp_is_clock_reading
         [where clk = tick_clock and parse_number = no_numbers
            and raw_records = "[VALID_RECORD, RECORD_MISSING_CW, VALID_RECORD]"
            and w = tstate0 and df = df and w' = w2]
       t c
  have b: "map retrieval_timestamp (rows df)
             = [Obj (PStr ''2026-02-18T22:05:00+00:00''), Obj (PStr ''2026-02-18T22:05:01+00:00'')]"
    by (simp add: tick_clock_def tstate0_def upt_rec)
  have A: "\<exists>r w'. parse_single tick_clock PARTIAL_RECORD tstate0 = (Inr (Some r), w')
       \<and> retrieval_timestamp r = Obj (PStr ''2026-02-18T22:05:00+00:00'')"
    using p a by (intro exI[of _ r] exI[of _ w1] conjI)
  have B: "\<exists>df w'. transform tick_clock no_numbers [VALID_RECORD, RECORD_MISSING_CW, VALID_RECORD] tstate0
                 = (Inr df, w')
       \<and> map retrieval_timestamp (rows df)
           = [Obj (PStr ''2026-02-18T22:05:00+00:00''), Obj (PStr ''2026-02-18T22:05:01+00:00'')]"
    using t b by (intro exI[of _ df] exI[of _ w2] conjI)
  from A B show ?thesis by (rule conjI)
qed

text \<open>
  C8. When the input is empty or every record is skipped, \<open>transform\<close> returns a frame
  without rows whose columns are the eight expected columns; and every frame that
  \<open>transform\<close> returns, empty or not, has exactly these columns.
\<close>

theorem transform_fixed_schema:
  "((\<forall>rec \<in> set raw_records. \<forall>w. fst (parse_single clk rec w) = Inr None) \<longrightarrow>
      (\<exists>w'. transform clk parse_number raw_records w =
         (Inr \<lparr>columns = [''city'', ''timestamp'', ''temperature_c'', ''windspeed_kmh'',
                          ''winddirection_deg'', ''weathercode'', ''is_day'', ''retrieval_timestamp''],
               rows = []\<rparr>, w')))
   \<and> (transform clk parse_number raw_records w = (Inr df, w1) \<longrightarrow>
        columns df = [''city'', ''timestamp'', ''temperature_c'', ''windspeed_kmh'',
                      ''winddirection_deg'', ''weathercode'', ''is_day'', ''retrieval_timestamp''])"
proof (intro conjI impI)
  assume "\<forall>rec \<in> set raw_records. \<forall>w. fst (parse_single clk rec w) = Inr None"
  from parse_loop_all_skipped[OF this, of "[]" w]
  show "\<exists>w'. transform clk parse_number raw_records w =
         (Inr \<lparr>columns = [''city'', ''timestamp'', ''temperature_c'', ''windspeed_kmh'',
                          ''winddirection_deg'', ''weathercode'', ''is_day'', ''retrieval_timestamp''],
               rows = []\<rparr>, w')"
    by (auto simp: transform_def EXPECTED_COLUMNS_def)
next
  assume tr: "transform clk parse_number raw_records w = (Inr df, w1)"
  then show "columns df = [''city'', ''timestamp'', ''temperature_c'', ''windspeed_kmh'',
                      ''winddirection_deg'', ''weathercode'', ''is_day'', ''retrieval_timestamp'']"
    by (auto simp: transform_def EXPECTED_COLUMNS_def
          split: prod.splits sum.splits if_splits dest!: coerce_types_Inr)
qed

theorem transform_fixed_schema_witness:
  "(\<exists>w'. transform tick_clock no_numbers [] tstate0 =
         (Inr \<lparr>columns = [''city'', ''timestamp'', ''temperature_c'', ''windspeed_kmh'',
                          ''winddirection_deg'', ''weathercode'', ''is_day'', ''retrieval_timestamp''],
               rows = []\<rparr>, w'))
   \<and> (\<exists>w'. transform tick_clock no_numbers [RECORD_MISSING_CW, RECORD_MISSING_CW] tstate0 =
         (Inr \<lparr>columns = [''city'', ''timestamp'', ''temperature_c'', ''windspeed_kmh'',
                          ''winddirection_deg'', ''weathercode'', ''is_day'', ''retrieval_timestamp''],
               rows = []\<rparr>, w'))
   \<and> (\<exists>df w'. transform tick_clock no_numbers [VALID_RECORD, RECORD_MISSING_CW, VALID_RECORD] tstate0
                 = (Inr df, w')
         \<and> rows df \<noteq> []
         \<and> columns df = [''city'', ''timestamp'', ''temperature_c'', ''windspeed_kmh'',
                      ''winddirection_deg'', ''weathercode'', ''is_day'', ''retrieval_timestamp''])"
proof -
  have skip: "\<forall>rec \<in> set [RECORD_MISSING_CW, RECORD_MISSING_CW].
                \<forall>w. fst (parse_single tick_clock rec w) = Inr None"
    by (simp add: parse_single_def RECORD_MISSING_CW_def)
  obtain df w2 where t: "transform tick_clock no_numbers [VALID_RECORD, RECORD_MISSING_CW, VALID_RECORD] tstate0
                           = (Inr df, w2)" and r: "rows df \<noteq> []"
    using transform_fixture_batch by simp
  from transform_fixed_schema
         [where clk = tick_clock and parse_number = no_numbers and raw_records = "[]" and w = tstate0]
  have a: "\<exists>w'. transform tick_clock no_numbers [] tstate0 =
         (Inr \<lparr>columns = [''city'', ''timestamp'', ''temperature_c'', ''windspeed_kmh'',
                          ''winddirection_deg'', ''weathercode'', ''is_day'', ''retrieval_timestamp''],
               rows = []\<rparr>, w')"
    by simp
  from transform_fixed_schema
         [where clk = tick_clock and parse_number = no_numbers
            and raw_records = "[RECORD_MISSING_CW, RECORD_MISSING_CW]" and w = tstate0]
       skip
  have b: "\<exists>w'. transform tick_clock no_numbers [RECORD_MISSING_CW, RECORD_MISSING_CW] tstate0 =
         (Inr \<lparr>columns = [''city'', ''timestamp'', ''temperature_c'', ''windspeed_kmh'',
                          ''winddirection_deg'', ''weathercode'', ''is_day'', ''retrieval_timestamp''],
               rows = []\<rparr>, w')"
    by blast
  from transform_fixed_schema
         [where clk = tick_clock and parse_number = no_numbers
            and raw_records = "[VALID_RECORD, RECORD_MISSING_CW, VALID_RECORD]"
            and w = tstate0 and df = df and ?w1.0 = w2]
       t
  have c: "columns df = [''city'', ''timestamp'', ''temperature_c'', ''windspeed_kmh'',
                      ''winddirection_deg'', ''weathercode'', ''is_day'', ''retrieval_timestamp'']"
    by blast
  from a b t r c show ?thesis by blast
qed

text \<open>
  C9. For a frame without rows, \<open>load_to_csv\<close> returns no path and writes no file and
  creates no directory, and \<open>load_to_sqlite\<close> returns 0 and leaves the tables and the
  directories as they are; each only logs a warning.
\<close>

theorem load_skips_empty_frame:
  assumes "rows df = []"
  shows "load_to_csv to_csv ts df data_dir s
           = (None, llog WARNING ''Empty DataFrame - CSV not written'' s)
       \<and> files (snd (load_to_csv to_csv ts df data_dir s)) = files s
       \<and> dirs (snd (load_to_csv to_csv ts df data_dir s)) = dirs s
       \<and> load_to_sqlite parent to_sql df db_path s
           = (Inr 0, llog WARNING ''Empty DataFrame - nothing to insert into SQLite'' s)
       \<and> tables (snd (load_to_sqlite parent to_sql df db_path s)) = tables s
       \<and> dirs (snd (load_to_sqlite parent to_sql df db_path s)) = dirs s"
  using assms by (simp add: load_to_csv_def load_to_sqlite_def df_empty_def llog_def)

theorem load_skips_empty_frame_witness:
  "load_to_csv csv_stub ''20260218_220500'' \<lparr>columns = EXPECTED_COLUMNS, rows = []\<rparr> ''data'' store0
     = (None, \<lparr>dirs = [], files = [], tables = [],
               llogs = [(WARNING, ''Empty DataFrame - CSV not written'')]\<rparr>)
   \<and> load_to_sqlite parent_stub sql_append \<lparr>columns = EXPECTED_COLUMNS, rows = []\<rparr>
        ''data/weather.db'' store0
     = (Inr 0, \<lparr>dirs = [], files = [], tables = [],
                llogs = [(WARNING, ''Empty DataFrame - nothing to insert into SQLite'')]\<rparr>)"
  using load_skips_empty_frame
          [where df = "\<lparr>columns = EXPECTED_COLUMNS, rows = []\<rparr>" and to_csv = csv_stub
             and ts = "''20260218_220500''" and data_dir = "''data''" and s = store0
             and parent = parent_stub and to_sql = sql_append and db_path = "''data/weather.db''"]
  by (simp add: llog_def store0_def)

end
